theory Spec2Isabelle
  imports Complex_Main
begin

section \<open>Survey index calculator: SCI, UEI and SEI from mouse-tracking records\<close>

text \<open>
  A shallow embedding of \<^verbatim>\<open>index_calculator.py\<close> (class \<^verbatim>\<open>IndexCalculator\<close>) and of
  the \<^verbatim>\<open>/calculate\<close> handler of \<^verbatim>\<open>api.py\<close>.

  Conventions of the embedding:
  \<^item> Python numbers (JSON ints and floats, \<^verbatim>\<open>np.float64\<close>) are real numbers: rounding
    error, NaN and the infinities of IEEE arithmetic are outside the model.
  \<^item> A JSON object is a record whose fields are options: \<open>None\<close> is an absent key,
    so that every \<^verbatim>\<open>d.get(k, default)\<close> of the source is a visible default here. A key
    that is present holds a value of the expected shape.
  \<^item> Fields the calculator never reads (\<^verbatim>\<open>step\<close>, \<^verbatim>\<open>normalizedTime\<close>,
    \<^verbatim>\<open>surveyId\<close>, \<^verbatim>\<open>averageVelocity\<close>, \<^verbatim>\<open>maximalVelocity\<close>) are left out;
    \<^verbatim>\<open>totalHovers\<close> is kept because the specification speaks about it.
  \<^item> \<^verbatim>\<open>self.history\<close> is passed in and returned explicitly.
  \<^item> A \<^verbatim>\<open>KeyError\<close> of the source is the value \<open>Inl (KeyError k)\<close>.
\<close>

subsection \<open>Data model\<close>

datatype error = KeyError string

record TrajectoryPoint =
  pt_x :: "real option"
  pt_y :: "real option"

record Deviation =
  maxDeviationPositive :: "real option"
  maxDeviationNegative :: "real option"
  aucPositive :: "real option"
  aucNegative :: "real option"

record Velocity =
  averageVelocityPxPerSec :: "real option"
  maximalVelocityPxPerSec :: "real option"

record Complexity =
  angleEntropy :: "real option"
  initiationTimeMs :: "real option"

record Hover =
  hoverCounts :: "(string \<times> real) list option"
  totalHovers :: "real option"

record Metrics =
  deviation :: "Deviation option"
  velocity :: "Velocity option"
  complexity :: "Complexity option"
  hover :: "Hover option"

record Metadata =
  userId :: "string option"
  questionId :: "string option"
  timestamp :: "string option"
  selectedResponse :: "string option"

record Telemetry =
  metadata :: "Metadata option"
  trajectory :: "TrajectoryPoint list option"
  metrics :: "Metrics option"

record TrajMetrics =
  xFlips :: nat
  yFlips :: nat
  averageDeviation :: real
  trajectoryLength :: real
  trajectorySmoothness :: real

record HistoryEntry =
  sci :: real
  uei :: real
  h_userId :: string
  h_questionId :: string
  h_timestamp :: string

record Indices =
  SCI :: real
  UEI :: real
  SEI :: real

text \<open>The empty dictionaries that the source passes as defaults to \<^verbatim>\<open>.get\<close>.\<close>

definition empty_Deviation :: Deviation where
  "empty_Deviation = \<lparr>maxDeviationPositive = None, maxDeviationNegative = None,
     aucPositive = None, aucNegative = None\<rparr>"

definition empty_Velocity :: Velocity where
  "empty_Velocity = \<lparr>averageVelocityPxPerSec = None, maximalVelocityPxPerSec = None\<rparr>"

definition empty_Complexity :: Complexity where
  "empty_Complexity = \<lparr>angleEntropy = None, initiationTimeMs = None\<rparr>"

definition empty_Hover :: Hover where
  "empty_Hover = \<lparr>hoverCounts = None, totalHovers = None\<rparr>"

definition empty_Metrics :: Metrics where
  "empty_Metrics = \<lparr>deviation = None, velocity = None, complexity = None, hover = None\<rparr>"

definition empty_Metadata :: Metadata where
  "empty_Metadata = \<lparr>userId = None, questionId = None, timestamp = None,
     selectedResponse = None\<rparr>"

text \<open>\<^verbatim>\<open>d.get(k, default)\<close>: the value under the key, or the default when the key is absent.\<close>

definition dict_get :: "'a option \<Rightarrow> 'a \<Rightarrow> 'a" where
  "dict_get v dflt = (case v of None \<Rightarrow> dflt | Some a \<Rightarrow> a)"

subsection \<open>Numeric helpers\<close>

text \<open>\<^verbatim>\<open>np.mean\<close>, \<^verbatim>\<open>np.std\<close> (population) and \<^verbatim>\<open>np.std(..., ddof=1)\<close> (sample).\<close>

definition np_mean :: "real list \<Rightarrow> real" where
  "np_mean vs = sum_list vs / real (length vs)"

definition np_std :: "real list \<Rightarrow> real" where
  "np_std vs = sqrt (np_mean (map (\<lambda>v. (v - np_mean vs)\<^sup>2) vs))"

definition np_std_ddof1 :: "real list \<Rightarrow> real" where
  "np_std_ddof1 vs =
     sqrt (sum_list (map (\<lambda>v. (v - np_mean vs)\<^sup>2) vs) / real (length vs - 1))"

text \<open>\<^verbatim>\<open>math.atan2(dy, dx)\<close> on real numbers (no signed zero).\<close>

definition atan2 :: "real \<Rightarrow> real \<Rightarrow> real" where
  "atan2 dy dx =
     (if dx > 0 then arctan (dy / dx)
      else if dx < 0 then (if dy \<ge> 0 then arctan (dy / dx) + pi else arctan (dy / dx) - pi)
      else if dy > 0 then pi / 2
      else if dy < 0 then - (pi / 2)
      else 0)"

text \<open>
  \<^verbatim>\<open>round(v, 2)\<close>: two decimals, a tie going to the even neighbour (on real numbers:
  the ties of the model are the exact ones).
\<close>

definition round_half_even :: "real \<Rightarrow> int" where
  "round_half_even v =
     (let f = \<lfloor>v\<rfloor>; d = v - of_int f
      in if d < 1 / 2 then f else if d > 1 / 2 then f + 1 else if even f then f else f + 1)"

definition py_round2 :: "real \<Rightarrow> real" where
  "py_round2 v = of_int (round_half_even (v * 100)) / 100"

subsection \<open>Trajectory geometry (\<^verbatim>\<open>calculate_trajectory_metrics\<close>)\<close>

text \<open>\<^verbatim>\<open>[p[k] for p in trajectory]\<close>: the first point without the key raises.\<close>

fun extract_coords :: "string \<Rightarrow> (TrajectoryPoint \<Rightarrow> real option) \<Rightarrow> TrajectoryPoint list
    \<Rightarrow> error + real list" where
  "extract_coords k f [] = Inr []"
| "extract_coords k f (p # ps) =
     (case f p of
        None \<Rightarrow> Inl (KeyError k)
      | Some v \<Rightarrow> (case extract_coords k f ps of Inl e \<Rightarrow> Inl e | Inr vs \<Rightarrow> Inr (v # vs)))"

text \<open>
  The flip loops: for each interior index \<open>i\<close>, a flip when
  \<open>(c[i] - c[i-1]) * (c[i+1] - c[i]) < 0\<close>.
\<close>

fun count_flips :: "real list \<Rightarrow> nat" where
  "count_flips (a # b # c # cs) =
     (if (b - a) * (c - b) < 0 then 1 else 0) + count_flips (b # c # cs)"
| "count_flips cs = 0"

definition line_length :: "real list \<Rightarrow> real list \<Rightarrow> real" where
  "line_length x_coords y_coords =
     sqrt ((last x_coords - hd x_coords)\<^sup>2 + (last y_coords - hd y_coords)\<^sup>2)"

definition deviations :: "real list \<Rightarrow> real list \<Rightarrow> real list" where
  "deviations x_coords y_coords =
     (let x_start = hd x_coords; y_start = hd y_coords;
          x_end = last x_coords; y_end = last y_coords
      in if line_length x_coords y_coords > 0
         then map (\<lambda>i. \<bar>(y_end - y_start) * (x_coords ! i) - (x_end - x_start) * (y_coords ! i)
                         + x_end * y_start - y_end * x_start\<bar>
                       / line_length x_coords y_coords)
                  [1 ..< length x_coords - 1]
         else [])"

definition trajectory_length :: "real list \<Rightarrow> real list \<Rightarrow> real" where
  "trajectory_length x_coords y_coords =
     sum_list (map (\<lambda>i. sqrt ((x_coords ! i - x_coords ! (i - 1))\<^sup>2
                             + (y_coords ! i - y_coords ! (i - 1))\<^sup>2))
                   [1 ..< length x_coords])"

definition angles :: "real list \<Rightarrow> real list \<Rightarrow> real list" where
  "angles x_coords y_coords =
     map (\<lambda>i. atan2 (y_coords ! i - y_coords ! (i - 1)) (x_coords ! i - x_coords ! (i - 1)))
         [1 ..< length x_coords]"

definition smoothness_of :: "real list \<Rightarrow> real" where
  "smoothness_of angs =
     (if length angs > 1
      then (let angle_changes = map (\<lambda>i. \<bar>angs ! i - angs ! (i - 1)\<bar>) [1 ..< length angs]
            in max 0 (1 - np_std angle_changes / pi))
      else 1)"

definition calculate_trajectory_metrics :: "TrajectoryPoint list \<Rightarrow> error + TrajMetrics" where
  "calculate_trajectory_metrics traj =
     (if length traj < 2
      then Inr \<lparr>xFlips = 0, yFlips = 0, averageDeviation = 0, trajectoryLength = 0,
                trajectorySmoothness = 1\<rparr>
      else (case extract_coords ''x'' pt_x traj of
              Inl e \<Rightarrow> Inl e
            | Inr x_coords \<Rightarrow>
               (case extract_coords ''y'' pt_y traj of
                  Inl e \<Rightarrow> Inl e
                | Inr y_coords \<Rightarrow>
                    Inr \<lparr>xFlips = count_flips x_coords,
                         yFlips = count_flips y_coords,
                         averageDeviation =
                           (if deviations x_coords y_coords \<noteq> []
                            then np_mean (deviations x_coords y_coords) else 0),
                         trajectoryLength = trajectory_length x_coords y_coords,
                         trajectorySmoothness = smoothness_of (angles x_coords y_coords)\<rparr>)))"

subsection \<open>Conflict index (\<^verbatim>\<open>calculate_sci\<close>)\<close>

text \<open>
  The hover block of \<^verbatim>\<open>calculate_sci\<close>. The dictionary \<^verbatim>\<open>hoverCounts\<close> is an
  association list (a dictionary has each key once); \<^verbatim>\<open>if hover_counts:\<close> is true of a
  non-empty dictionary.
\<close>

definition hover_ratio :: "Hover \<Rightarrow> Metadata \<Rightarrow> real" where
  "hover_ratio hv md =
     (let hover_counts = dict_get (hoverCounts hv) [];
          selected_response = dict_get (selectedResponse md) ''''
      in if hover_counts \<noteq> []
         then (let total_hovers = sum_list (map snd hover_counts);
                   selected_hovers = dict_get (map_of hover_counts selected_response) 0;
                   non_selected_hovers = total_hovers - selected_hovers
               in if total_hovers > 0 then non_selected_hovers / total_hovers else 0)
         else 0)"

definition calculate_sci :: "Telemetry \<Rightarrow> error + real" where
  "calculate_sci data =
     (let m = dict_get (metrics data) empty_Metrics;
          traj = dict_get (trajectory data) [];
          md = dict_get (metadata data) empty_Metadata;
          dev = dict_get (deviation m) empty_Deviation;
          vel = dict_get (velocity m) empty_Velocity;
          hv = dict_get (hover m) empty_Hover;
          max_dev_pos = dict_get (maxDeviationPositive dev) 0;
          max_dev_neg = \<bar>dict_get (maxDeviationNegative dev) 0\<bar>;
          auc_pos = dict_get (aucPositive dev) 0;
          auc_neg = \<bar>dict_get (aucNegative dev) 0\<bar>;
          avg_velocity = dict_get (averageVelocityPxPerSec vel) 0
      in case calculate_trajectory_metrics traj of
           Inl e \<Rightarrow> Inl e
         | Inr traj_metrics \<Rightarrow>
            (let x_flips = xFlips traj_metrics;
                 y_flips = yFlips traj_metrics;
                 avg_deviation = averageDeviation traj_metrics;
                 total_max_dev = max_dev_pos + max_dev_neg;
                 total_auc = auc_pos + auc_neg;
                 total_flips = x_flips + y_flips;
                 norm_max_dev = min (total_max_dev / 100) 1;
                 norm_auc = min (total_auc / 500) 1;
                 norm_flips = min (real total_flips / 20) 1;
                 norm_avg_dev = min (avg_deviation / 50) 1;
                 norm_velocity = 1 - min (avg_velocity / 2000) 1;
                 norm_hover = hover_ratio hv md;
                 sci_raw = 25 / 100 * norm_flips + 20 / 100 * norm_max_dev
                   + 20 / 100 * norm_auc + 15 / 100 * norm_avg_dev
                   + 10 / 100 * norm_velocity + 10 / 100 * norm_hover
             in Inr (sci_raw * 100)))"

subsection \<open>Engagement index (\<^verbatim>\<open>calculate_uei\<close>)\<close>

text \<open>
  The source's \<^verbatim>\<open>smoothness if smoothness is not None else 0.5\<close> is \<open>smoothness\<close>:
  \<^verbatim>\<open>calculate_trajectory_metrics\<close> never returns \<^verbatim>\<open>None\<close> there.
\<close>

definition calculate_uei :: "Telemetry \<Rightarrow> error + real" where
  "calculate_uei data =
     (let m = dict_get (metrics data) empty_Metrics;
          traj = dict_get (trajectory data) [];
          dev = dict_get (deviation m) empty_Deviation;
          vel = dict_get (velocity m) empty_Velocity;
          cpx = dict_get (complexity m) empty_Complexity;
          max_dev_pos = dict_get (maxDeviationPositive dev) 0;
          max_dev_neg = \<bar>dict_get (maxDeviationNegative dev) 0\<bar>;
          auc_pos = dict_get (aucPositive dev) 0;
          auc_neg = \<bar>dict_get (aucNegative dev) 0\<bar>;
          avg_velocity = dict_get (averageVelocityPxPerSec vel) 500;
          max_velocity = dict_get (maximalVelocityPxPerSec vel) 1000;
          angle_entropy = dict_get (angleEntropy cpx) 1;
          initiation_time = dict_get (initiationTimeMs cpx) 200
      in case calculate_trajectory_metrics traj of
           Inl e \<Rightarrow> Inl e
         | Inr traj_metrics \<Rightarrow>
            (let trajectory_len = trajectoryLength traj_metrics;
                 smoothness = trajectorySmoothness traj_metrics;
                 total_max_dev = max_dev_pos + max_dev_neg;
                 total_auc = auc_pos + auc_neg;
                 directness = 1 - min (total_max_dev / 100) 1;
                 smoothness_norm = smoothness;
                 not_too_slow = min (avg_velocity / 1000) 1;
                 decisiveness = min (max_velocity / 2000) 1;
                 confident_engagement =
                   (directness + smoothness_norm + not_too_slow + decisiveness) / 4;
                 norm_entropy = min (angle_entropy / 3) 1;
                 norm_auc = min (total_auc / 500) 1;
                 norm_length = min (trajectory_len / 5) 1;
                 exploration = (norm_entropy + norm_auc + norm_length) / 3;
                 deliberation = 1 - min (avg_velocity / 1000) 1;
                 exploratory_engagement = exploration * (7 / 10) + deliberation * (3 / 10);
                 uei_raw = max confident_engagement exploratory_engagement;
                 speed_penalty = (if initiation_time < 100 then 7 / 10 else 1);
                 uei_scaled = uei_raw * speed_penalty * 100
             in Inr (max 0 (min 100 uei_scaled))))"

subsection \<open>History and session index (\<^verbatim>\<open>add_to_history\<close>, \<^verbatim>\<open>calculate_sei\<close>)\<close>

definition add_to_history :: "HistoryEntry list \<Rightarrow> real \<Rightarrow> real \<Rightarrow> Metadata \<Rightarrow> HistoryEntry list"
  where
  "add_to_history history s u md =
     history @ [\<lparr>sci = s, uei = u,
                  h_userId = dict_get (userId md) '''',
                  h_questionId = dict_get (questionId md) '''',
                  h_timestamp = dict_get (timestamp md) ''''\<rparr>]"

text \<open>
  \<^verbatim>\<open>if user_id:\<close> holds of a string that is neither \<^verbatim>\<open>None\<close> nor empty. The same
  selection opens \<^verbatim>\<open>calculate_sei\<close> and \<^verbatim>\<open>get_history\<close>.
\<close>

definition get_history :: "HistoryEntry list \<Rightarrow> string option \<Rightarrow> HistoryEntry list" where
  "get_history history user_id =
     (case user_id of
        None \<Rightarrow> history
      | Some u \<Rightarrow> if u \<noteq> [] then filter (\<lambda>h. h_userId h = u) history else history)"

definition reset_history :: "HistoryEntry list \<Rightarrow> HistoryEntry list" where
  "reset_history history = []"

text \<open>
  The body of \<^verbatim>\<open>calculate_sei\<close> below its filter: the index of a sequence of entries.
\<close>

definition sei_of_entries :: "HistoryEntry list \<Rightarrow> real" where
  "sei_of_entries hist =
     (if hist = [] then 50
      else
       (let sci_values = map sci hist;
            uei_values = map uei hist;
            cumulative_mean_uei = np_mean uei_values;
            cumulative_mean_sci = np_mean sci_values;
            cumulative_cv_uei =
              (if length uei_values > 1
               then (if cumulative_mean_uei > 0
                     then np_std_ddof1 uei_values / cumulative_mean_uei else 0)
               else 0);
            consistency = 1 / (1 + cumulative_cv_uei);
            high_engagement_ratio =
              real (length (filter (\<lambda>u. u > 60) uei_values)) / real (length uei_values);
            low_engagement_ratio =
              real (length (filter (\<lambda>u. u < 30) uei_values)) / real (length uei_values);
            balance =
              real (length (filter (\<lambda>(s, u). s > 50 \<and> u > 60) (zip sci_values uei_values)))
                / real (length uei_values);
            norm_uei = cumulative_mean_uei / 100;
            norm_sci = cumulative_mean_sci / 100;
            norm_low_penalty = 1 - low_engagement_ratio;
            sei_raw = 40 / 100 * norm_uei + 20 / 100 * norm_sci + 15 / 100 * consistency
              + 10 / 100 * high_engagement_ratio + 10 / 100 * balance
              + 5 / 100 * norm_low_penalty
        in sei_raw * 100))"

definition calculate_sei :: "HistoryEntry list \<Rightarrow> string option \<Rightarrow> real" where
  "calculate_sei history user_id =
     sei_of_entries
       (case user_id of
          None \<Rightarrow> history
        | Some u \<Rightarrow> if u \<noteq> [] then filter (\<lambda>h. h_userId h = u) history else history)"

subsection \<open>The facade (\<^verbatim>\<open>calculate_all\<close>)\<close>

text \<open>
  An exception of \<^verbatim>\<open>calculate_sci\<close> or \<^verbatim>\<open>calculate_uei\<close> leaves before the append:
  on \<open>Inl\<close> the history is the one passed in.
\<close>

definition calculate_all :: "Telemetry \<Rightarrow> bool \<Rightarrow> HistoryEntry list
    \<Rightarrow> error + (Indices \<times> HistoryEntry list)" where
  "calculate_all data update_history history =
     (case calculate_sci data of
        Inl e \<Rightarrow> Inl e
      | Inr s \<Rightarrow>
         (case calculate_uei data of
            Inl e \<Rightarrow> Inl e
          | Inr u \<Rightarrow>
             (let history' =
                    (if update_history
                     then add_to_history history s u (dict_get (metadata data) empty_Metadata)
                     else history);
                  user_id = userId (dict_get (metadata data) empty_Metadata);
                  sei = calculate_sei history' user_id
              in Inr (\<lparr>SCI = py_round2 s, UEI = py_round2 u, SEI = py_round2 sei\<rparr>,
                      history'))))"

subsection \<open>The \<^verbatim>\<open>/calculate\<close> endpoint of \<^verbatim>\<open>api.py\<close>\<close>



definition has_field :: "Telemetry \<Rightarrow> string \<Rightarrow> bool" where
  "has_field data f =
     (if f = ''metadata'' then metadata data \<noteq> None
      else if f = ''trajectory'' then trajectory data \<noteq> None
      else if f = ''metrics'' then metrics data \<noteq> None
      else False)"

definition missing_fields :: "Telemetry \<Rightarrow> string list" where
  "missing_fields data =
     filter (\<lambda>f. \<not> has_field data f) [''metadata'', ''trajectory'', ''metrics'']"




subsection \<open>Vocabulary of the properties\<close>

text \<open>
  A record with one sub-section of its metrics bundle replaced: the two records of a
  statement "identical except for this field" are built from the same \<open>data\<close>.
\<close>

definition set_deviation :: "Telemetry \<Rightarrow> Deviation \<Rightarrow> Telemetry" where
  "set_deviation data dev =
     data\<lparr>metrics := Some ((dict_get (metrics data) empty_Metrics)\<lparr>deviation := Some dev\<rparr>)\<rparr>"

definition set_velocity :: "Telemetry \<Rightarrow> Velocity \<Rightarrow> Telemetry" where
  "set_velocity data vel =
     data\<lparr>metrics := Some ((dict_get (metrics data) empty_Metrics)\<lparr>velocity := Some vel\<rparr>)\<rparr>"

definition set_complexity :: "Telemetry \<Rightarrow> Complexity \<Rightarrow> Telemetry" where
  "set_complexity data cpx =
     data\<lparr>metrics := Some ((dict_get (metrics data) empty_Metrics)\<lparr>complexity := Some cpx\<rparr>)\<rparr>"

definition set_hover :: "Telemetry \<Rightarrow> Hover \<Rightarrow> Telemetry" where
  "set_hover data hv =
     data\<lparr>metrics := Some ((dict_get (metrics data) empty_Metrics)\<lparr>hover := Some hv\<rparr>)\<rparr>"

text \<open>
  The hover ratio as the specification words it, from the record's \<^verbatim>\<open>totalHovers\<close>:
  \<open>(totalHovers - hoverCounts[selectedResponse]) / totalHovers\<close>, and 0 when
  \<^verbatim>\<open>totalHovers\<close> is 0 or \<^verbatim>\<open>hoverCounts\<close> is absent. It is compared with
  \<open>hover_ratio\<close>, which is the source's.
\<close>

definition spec_hover_ratio :: "Hover \<Rightarrow> Metadata \<Rightarrow> real" where
  "spec_hover_ratio hv md =
     (case hoverCounts hv of
        None \<Rightarrow> 0
      | Some hover_counts \<Rightarrow>
         (let total_hovers = dict_get (totalHovers hv) 0;
              selected_hovers =
                dict_get (map_of hover_counts (dict_get (selectedResponse md) '''')) 0
          in if total_hovers = 0 then 0 else (total_hovers - selected_hovers) / total_hovers))"

text \<open>
  The arithmetic of \<^verbatim>\<open>calculate_sci\<close> and of \<^verbatim>\<open>calculate_uei\<close> (before the penalty
  and the clamp) as functions of the numbers they read; \<open>calculate_sci_eq\<close> and
  \<open>calculate_uei_eq\<close> below show that the two definitions above compute exactly these.
\<close>

definition sci_formula :: "real \<Rightarrow> real \<Rightarrow> real \<Rightarrow> real \<Rightarrow> real \<Rightarrow> real \<Rightarrow> TrajMetrics \<Rightarrow> real"
  where
  "sci_formula max_dev_pos max_dev_neg auc_pos auc_neg avg_velocity norm_hover tm =
     (25 / 100 * min (real (xFlips tm + yFlips tm) / 20) 1
      + 20 / 100 * min ((max_dev_pos + max_dev_neg) / 100) 1
      + 20 / 100 * min ((auc_pos + auc_neg) / 500) 1
      + 15 / 100 * min (averageDeviation tm / 50) 1
      + 10 / 100 * (1 - min (avg_velocity / 2000) 1)
      + 10 / 100 * norm_hover) * 100"

definition uei_raw_formula :: "real \<Rightarrow> real \<Rightarrow> real \<Rightarrow> real \<Rightarrow> real \<Rightarrow> real \<Rightarrow> real
    \<Rightarrow> TrajMetrics \<Rightarrow> real" where
  "uei_raw_formula max_dev_pos max_dev_neg auc_pos auc_neg avg_velocity max_velocity
       angle_entropy tm =
     max ((1 - min ((max_dev_pos + max_dev_neg) / 100) 1 + trajectorySmoothness tm
            + min (avg_velocity / 1000) 1 + min (max_velocity / 2000) 1) / 4)
         ((min (angle_entropy / 3) 1 + min ((auc_pos + auc_neg) / 500) 1
            + min (trajectoryLength tm / 5) 1) / 3 * (7 / 10)
          + (1 - min (avg_velocity / 1000) 1) * (3 / 10))"

text \<open>
  Records whose numbers have the sign their names announce: the positive deviation and
  area, the average velocity and the hover counts are not negative (an absent field counts
  with its default). A score is in range when it lies in \<open>[0, 100]\<close>.
\<close>

definition nonneg_inputs :: "Telemetry \<Rightarrow> bool" where
  "nonneg_inputs data =
     (let m = dict_get (metrics data) empty_Metrics;
          dev = dict_get (deviation m) empty_Deviation;
          vel = dict_get (velocity m) empty_Velocity;
          hv = dict_get (hover m) empty_Hover
      in 0 \<le> dict_get (maxDeviationPositive dev) 0 \<and>
         0 \<le> dict_get (aucPositive dev) 0 \<and>
         0 \<le> dict_get (averageVelocityPxPerSec vel) 0 \<and>
         list_all (\<lambda>kc. 0 \<le> snd kc) (dict_get (hoverCounts hv) []))"

definition in_range :: "real \<Rightarrow> bool" where
  "in_range v = (0 \<le> v \<and> v \<le> 100)"

text \<open>Example inputs.\<close>

definition minimal_record :: Telemetry where
  "minimal_record =
     \<lparr>metadata = Some empty_Metadata, trajectory = Some [], metrics = Some empty_Metrics\<rparr>"

definition negative_deviation_record :: Telemetry where
  "negative_deviation_record =
     set_deviation minimal_record (empty_Deviation\<lparr>maxDeviationPositive := Some (- 10000)\<rparr>)"

definition bob_entry :: HistoryEntry where
  "bob_entry = \<lparr>sci = 10, uei = 75, h_userId = ''bob'', h_questionId = ''q1'',
     h_timestamp = ''''\<rparr>"

definition minimal_entry :: HistoryEntry where
  "minimal_entry = \<lparr>sci = 10, uei = 75, h_userId = '''', h_questionId = '''',
     h_timestamp = ''''\<rparr>"

definition conflict_entry :: HistoryEntry where
  "conflict_entry = \<lparr>sci = 60, uei = 75, h_userId = ''bob'', h_questionId = ''q0'',
     h_timestamp = ''''\<rparr>"

section \<open>Properties\<close>

subsection \<open>Unfolding and evaluation lemmas\<close>

lemmas empty_defs = empty_Metrics_def empty_Metadata_def empty_Deviation_def
  empty_Velocity_def empty_Hover_def empty_Complexity_def

lemmas setter_defs = set_deviation_def set_velocity_def set_complexity_def set_hover_def

lemma calculate_sci_eq:
  "calculate_sci data =
     (case calculate_trajectory_metrics (dict_get (trajectory data) []) of
        Inl e \<Rightarrow> Inl e
      | Inr tm \<Rightarrow>
          Inr (sci_formula
            (dict_get (maxDeviationPositive
               (dict_get (deviation (dict_get (metrics data) empty_Metrics)) empty_Deviation)) 0)
            \<bar>dict_get (maxDeviationNegative
               (dict_get (deviation (dict_get (metrics data) empty_Metrics)) empty_Deviation)) 0\<bar>
            (dict_get (aucPositive
               (dict_get (deviation (dict_get (metrics data) empty_Metrics)) empty_Deviation)) 0)
            \<bar>dict_get (aucNegative
               (dict_get (deviation (dict_get (metrics data) empty_Metrics)) empty_Deviation)) 0\<bar>
            (dict_get (averageVelocityPxPerSec
               (dict_get (velocity (dict_get (metrics data) empty_Metrics)) empty_Velocity)) 0)
            (hover_ratio (dict_get (hover (dict_get (metrics data) empty_Metrics)) empty_Hover)
               (dict_get (metadata data) empty_Metadata))
            tm))"
  by (simp only: calculate_sci_def sci_formula_def Let_def)

lemma calculate_uei_eq:
  "calculate_uei data =
     (case calculate_trajectory_metrics (dict_get (trajectory data) []) of
        Inl e \<Rightarrow> Inl e
      | Inr tm \<Rightarrow>
          Inr (max 0 (min 100
            (uei_raw_formula
              (dict_get (maxDeviationPositive
                 (dict_get (deviation (dict_get (metrics data) empty_Metrics)) empty_Deviation)) 0)
              \<bar>dict_get (maxDeviationNegative
                 (dict_get (deviation (dict_get (metrics data) empty_Metrics)) empty_Deviation)) 0\<bar>
              (dict_get (aucPositive
                 (dict_get (deviation (dict_get (metrics data) empty_Metrics)) empty_Deviation)) 0)
              \<bar>dict_get (aucNegative
                 (dict_get (deviation (dict_get (metrics data) empty_Metrics)) empty_Deviation)) 0\<bar>
              (dict_get (averageVelocityPxPerSec
                 (dict_get (velocity (dict_get (metrics data) empty_Metrics)) empty_Velocity)) 500)
              (dict_get (maximalVelocityPxPerSec
                 (dict_get (velocity (dict_get (metrics data) empty_Metrics)) empty_Velocity)) 1000)
              (dict_get (angleEntropy
                 (dict_get (complexity (dict_get (metrics data) empty_Metrics)) empty_Complexity)) 1)
              tm
             * (if dict_get (initiationTimeMs
                     (dict_get (complexity (dict_get (metrics data) empty_Metrics))
                        empty_Complexity)) 200 < 100
                then 7 / 10 else 1)
             * 100))))"
  by (simp only: calculate_uei_def uei_raw_formula_def Let_def)

lemmas sci_unfold = calculate_sci_eq setter_defs dict_get_def
lemmas uei_unfold = calculate_uei_eq setter_defs dict_get_def

lemma tm_nil:
  "calculate_trajectory_metrics [] =
     Inr \<lparr>xFlips = 0, yFlips = 0, averageDeviation = 0, trajectoryLength = 0,
          trajectorySmoothness = 1\<rparr>"
  by (simp add: calculate_trajectory_metrics_def)

lemma sci_minimal: "calculate_sci minimal_record = Inr 10"
  by (simp add: minimal_record_def calculate_sci_eq tm_nil sci_formula_def hover_ratio_def
      dict_get_def empty_defs)

lemma uei_minimal: "calculate_uei minimal_record = Inr 75"
  by (simp add: minimal_record_def calculate_uei_eq tm_nil uei_raw_formula_def dict_get_def
      empty_defs)



lemma py_round2_10: "py_round2 10 = 10"
  by (simp add: py_round2_def round_half_even_def)

lemma py_round2_75: "py_round2 75 = 75"
  by (simp add: py_round2_def round_half_even_def)

lemma py_round2_62: "py_round2 62 = 62"
  by (simp add: py_round2_def round_half_even_def)

lemma sei_single: "sei_of_entries [minimal_entry] = 62"
  by (simp add: sei_of_entries_def minimal_entry_def np_mean_def)

lemma sei_bob: "sei_of_entries [bob_entry] = 62"
  by (simp add: sei_of_entries_def bob_entry_def np_mean_def)

subsection \<open>Degenerate trajectories\<close>

text \<open>
  Claim C9. A trajectory with fewer than two points (empty, or a single point, whatever
  its keys) yields no flips, zero average deviation, zero length and smoothness 1.
\<close>

theorem C9_degenerate_trajectory:
  "length traj < 2 \<Longrightarrow>
   calculate_trajectory_metrics traj =
     Inr \<lparr>xFlips = 0, yFlips = 0, averageDeviation = 0, trajectoryLength = 0,
          trajectorySmoothness = 1\<rparr>"
  by (simp add: calculate_trajectory_metrics_def)

theorem C9_degenerate_trajectory_witness:
  "length [\<lparr>pt_x = Some (1 / 2), pt_y = Some (1 / 2)\<rparr>] < 2 \<and>
   calculate_trajectory_metrics [\<lparr>pt_x = Some (1 / 2), pt_y = Some (1 / 2)\<rparr>] =
     Inr \<lparr>xFlips = 0, yFlips = 0, averageDeviation = 0, trajectoryLength = 0,
          trajectorySmoothness = 1\<rparr>"
  using C9_degenerate_trajectory [of "[\<lparr>pt_x = Some (1 / 2), pt_y = Some (1 / 2)\<rparr>]"]
  by simp

subsection \<open>The \<^verbatim>\<open>/calculate\<close> endpoint and missing sections\<close>





subsection \<open>Defaults of absent leaf fields\<close>

lemma sci_default_maxDeviationPositive:
  "calculate_sci (set_deviation data (dev\<lparr>maxDeviationPositive := None\<rparr>))
     = calculate_sci (set_deviation data (dev\<lparr>maxDeviationPositive := Some 0\<rparr>))"
  by (simp add: sci_unfold split: sum.splits)

lemma sci_default_maxDeviationNegative:
  "calculate_sci (set_deviation data (dev\<lparr>maxDeviationNegative := None\<rparr>))
     = calculate_sci (set_deviation data (dev\<lparr>maxDeviationNegative := Some 0\<rparr>))"
  by (simp add: sci_unfold split: sum.splits)

lemma sci_default_aucPositive:
  "calculate_sci (set_deviation data (dev\<lparr>aucPositive := None\<rparr>))
     = calculate_sci (set_deviation data (dev\<lparr>aucPositive := Some 0\<rparr>))"
  by (simp add: sci_unfold split: sum.splits)

lemma sci_default_aucNegative:
  "calculate_sci (set_deviation data (dev\<lparr>aucNegative := None\<rparr>))
     = calculate_sci (set_deviation data (dev\<lparr>aucNegative := Some 0\<rparr>))"
  by (simp add: sci_unfold split: sum.splits)

lemma sci_default_averageVelocity:
  "calculate_sci (set_velocity data (vel\<lparr>averageVelocityPxPerSec := None\<rparr>))
     = calculate_sci (set_velocity data (vel\<lparr>averageVelocityPxPerSec := Some 0\<rparr>))"
  by (simp add: sci_unfold split: sum.splits)

lemma sci_default_hoverCounts:
  "calculate_sci (set_hover data (hv\<lparr>hoverCounts := None\<rparr>))
     = calculate_sci (set_hover data (hv\<lparr>hoverCounts := Some []\<rparr>))"
  by (simp add: sci_unfold hover_ratio_def split: sum.splits)

lemma uei_default_maxDeviationPositive:
  "calculate_uei (set_deviation data (dev\<lparr>maxDeviationPositive := None\<rparr>))
     = calculate_uei (set_deviation data (dev\<lparr>maxDeviationPositive := Some 0\<rparr>))"
  by (simp add: uei_unfold split: sum.splits)

lemma uei_default_maxDeviationNegative:
  "calculate_uei (set_deviation data (dev\<lparr>maxDeviationNegative := None\<rparr>))
     = calculate_uei (set_deviation data (dev\<lparr>maxDeviationNegative := Some 0\<rparr>))"
  by (simp add: uei_unfold split: sum.splits)

lemma uei_default_aucPositive:
  "calculate_uei (set_deviation data (dev\<lparr>aucPositive := None\<rparr>))
     = calculate_uei (set_deviation data (dev\<lparr>aucPositive := Some 0\<rparr>))"
  by (simp add: uei_unfold split: sum.splits)

lemma uei_default_aucNegative:
  "calculate_uei (set_deviation data (dev\<lparr>aucNegative := None\<rparr>))
     = calculate_uei (set_deviation data (dev\<lparr>aucNegative := Some 0\<rparr>))"
  by (simp add: uei_unfold split: sum.splits)

lemma uei_default_averageVelocity:
  "calculate_uei (set_velocity data (vel\<lparr>averageVelocityPxPerSec := None\<rparr>))
     = calculate_uei (set_velocity data (vel\<lparr>averageVelocityPxPerSec := Some 500\<rparr>))"
  by (simp add: uei_unfold split: sum.splits)

lemma uei_default_maximalVelocity:
  "calculate_uei (set_velocity data (vel\<lparr>maximalVelocityPxPerSec := None\<rparr>))
     = calculate_uei (set_velocity data (vel\<lparr>maximalVelocityPxPerSec := Some 1000\<rparr>))"
  by (simp add: uei_unfold split: sum.splits)

lemma uei_default_angleEntropy:
  "calculate_uei (set_complexity data (cpx\<lparr>angleEntropy := None\<rparr>))
     = calculate_uei (set_complexity data (cpx\<lparr>angleEntropy := Some 1\<rparr>))"
  by (simp add: uei_unfold split: sum.splits)

lemma uei_default_initiationTimeMs:
  "calculate_uei (set_complexity data (cpx\<lparr>initiationTimeMs := None\<rparr>))
     = calculate_uei (set_complexity data (cpx\<lparr>initiationTimeMs := Some 200\<rparr>))"
  by (simp add: uei_unfold split: sum.splits)

lemma sci_unread_maximalVelocity:
  "calculate_sci (set_velocity data (vel\<lparr>maximalVelocityPxPerSec := None\<rparr>))
     = calculate_sci (set_velocity data (vel\<lparr>maximalVelocityPxPerSec := Some 0\<rparr>))"
  by (simp add: sci_unfold split: sum.splits)

lemma sci_unread_angleEntropy:
  "calculate_sci (set_complexity data (cpx\<lparr>angleEntropy := None\<rparr>))
     = calculate_sci (set_complexity data (cpx\<lparr>angleEntropy := Some 0\<rparr>))"
  by (simp add: sci_unfold split: sum.splits)

lemma sci_unread_initiationTimeMs:
  "calculate_sci (set_complexity data (cpx\<lparr>initiationTimeMs := None\<rparr>))
     = calculate_sci (set_complexity data (cpx\<lparr>initiationTimeMs := Some 0\<rparr>))"
  by (simp add: sci_unfold split: sum.splits)

lemma sci_unread_totalHovers:
  "calculate_sci (set_hover data (hv\<lparr>totalHovers := None\<rparr>))
     = calculate_sci (set_hover data (hv\<lparr>totalHovers := Some 0\<rparr>))"
  by (simp add: sci_unfold hover_ratio_def split: sum.splits)

lemma uei_unread_hoverCounts:
  "calculate_uei (set_hover data (hv\<lparr>hoverCounts := None\<rparr>))
     = calculate_uei (set_hover data (hv\<lparr>hoverCounts := Some []\<rparr>))"
  by (simp add: uei_unfold split: sum.splits)

lemma uei_unread_totalHovers:
  "calculate_uei (set_hover data (hv\<lparr>totalHovers := None\<rparr>))
     = calculate_uei (set_hover data (hv\<lparr>totalHovers := Some 0\<rparr>))"
  by (simp add: uei_unfold split: sum.splits)

text \<open>
  Claim C3, as stated: an absent leaf field of the metrics bundle scores as the same field
  present with value 0. For the UEI this fails: with \<^verbatim>\<open>initiationTimeMs\<close> absent the
  default is 200 and no penalty applies (UEI 75), with \<^verbatim>\<open>initiationTimeMs = 0\<close> the
  penalty 0.7 applies (UEI 52.5).
\<close>

theorem C3_counterexample:
  "calculate_uei (set_complexity minimal_record (empty_Complexity\<lparr>initiationTimeMs := None\<rparr>))
     = Inr 75 \<and>
   calculate_uei (set_complexity minimal_record (empty_Complexity\<lparr>initiationTimeMs := Some 0\<rparr>))
     = Inr (105 / 2)"
  by (simp add: minimal_record_def calculate_uei_eq tm_nil uei_raw_formula_def dict_get_def
      empty_defs set_complexity_def)

text \<open>
  Claim C3, amended: each leaf field has the default of its call site. The SCI of a
  record with a leaf field of the metrics bundle absent is the SCI of the same record with
  that field present as 0 (as the empty mapping for \<^verbatim>\<open>hoverCounts\<close>), for every leaf
  field. The UEI agrees with that for the deviation and hover fields; in the UEI an absent
  \<^verbatim>\<open>averageVelocityPxPerSec\<close> scores as 500, \<^verbatim>\<open>maximalVelocityPxPerSec\<close> as 1000,
  \<^verbatim>\<open>angleEntropy\<close> as 1.0 and \<^verbatim>\<open>initiationTimeMs\<close> as 200.
\<close>

theorem C3_leaf_defaults:
  "calculate_sci (set_deviation data (dev\<lparr>maxDeviationPositive := None\<rparr>))
     = calculate_sci (set_deviation data (dev\<lparr>maxDeviationPositive := Some 0\<rparr>)) \<and>
   calculate_sci (set_deviation data (dev\<lparr>maxDeviationNegative := None\<rparr>))
     = calculate_sci (set_deviation data (dev\<lparr>maxDeviationNegative := Some 0\<rparr>)) \<and>
   calculate_sci (set_deviation data (dev\<lparr>aucPositive := None\<rparr>))
     = calculate_sci (set_deviation data (dev\<lparr>aucPositive := Some 0\<rparr>)) \<and>
   calculate_sci (set_deviation data (dev\<lparr>aucNegative := None\<rparr>))
     = calculate_sci (set_deviation data (dev\<lparr>aucNegative := Some 0\<rparr>)) \<and>
   calculate_sci (set_velocity data (vel\<lparr>averageVelocityPxPerSec := None\<rparr>))
     = calculate_sci (set_velocity data (vel\<lparr>averageVelocityPxPerSec := Some 0\<rparr>)) \<and>
   calculate_sci (set_velocity data (vel\<lparr>maximalVelocityPxPerSec := None\<rparr>))
     = calculate_sci (set_velocity data (vel\<lparr>maximalVelocityPxPerSec := Some 0\<rparr>)) \<and>
   calculate_sci (set_complexity data (cpx\<lparr>angleEntropy := None\<rparr>))
     = calculate_sci (set_complexity data (cpx\<lparr>angleEntropy := Some 0\<rparr>)) \<and>
   calculate_sci (set_complexity data (cpx\<lparr>initiationTimeMs := None\<rparr>))
     = calculate_sci (set_complexity data (cpx\<lparr>initiationTimeMs := Some 0\<rparr>)) \<and>
   calculate_sci (set_hover data (hv\<lparr>hoverCounts := None\<rparr>))
     = calculate_sci (set_hover data (hv\<lparr>hoverCounts := Some []\<rparr>)) \<and>
   calculate_sci (set_hover data (hv\<lparr>totalHovers := None\<rparr>))
     = calculate_sci (set_hover data (hv\<lparr>totalHovers := Some 0\<rparr>)) \<and>
   calculate_uei (set_deviation data (dev\<lparr>maxDeviationPositive := None\<rparr>))
     = calculate_uei (set_deviation data (dev\<lparr>maxDeviationPositive := Some 0\<rparr>)) \<and>
   calculate_uei (set_deviation data (dev\<lparr>maxDeviationNegative := None\<rparr>))
     = calculate_uei (set_deviation data (dev\<lparr>maxDeviationNegative := Some 0\<rparr>)) \<and>
   calculate_uei (set_deviation data (dev\<lparr>aucPositive := None\<rparr>))
     = calculate_uei (set_deviation data (dev\<lparr>aucPositive := Some 0\<rparr>)) \<and>
   calculate_uei (set_deviation data (dev\<lparr>aucNegative := None\<rparr>))
     = calculate_uei (set_deviation data (dev\<lparr>aucNegative := Some 0\<rparr>)) \<and>
   calculate_uei (set_hover data (hv\<lparr>hoverCounts := None\<rparr>))
     = calculate_uei (set_hover data (hv\<lparr>hoverCounts := Some []\<rparr>)) \<and>
   calculate_uei (set_hover data (hv\<lparr>totalHovers := None\<rparr>))
     = calculate_uei (set_hover data (hv\<lparr>totalHovers := Some 0\<rparr>)) \<and>
   calculate_uei (set_velocity data (vel\<lparr>averageVelocityPxPerSec := None\<rparr>))
     = calculate_uei (set_velocity data (vel\<lparr>averageVelocityPxPerSec := Some 500\<rparr>)) \<and>
   calculate_uei (set_velocity data (vel\<lparr>maximalVelocityPxPerSec := None\<rparr>))
     = calculate_uei (set_velocity data (vel\<lparr>maximalVelocityPxPerSec := Some 1000\<rparr>)) \<and>
   calculate_uei (set_complexity data (cpx\<lparr>angleEntropy := None\<rparr>))
     = calculate_uei (set_complexity data (cpx\<lparr>angleEntropy := Some 1\<rparr>)) \<and>
   calculate_uei (set_complexity data (cpx\<lparr>initiationTimeMs := None\<rparr>))
     = calculate_uei (set_complexity data (cpx\<lparr>initiationTimeMs := Some 200\<rparr>))"
  by (intro conjI sci_default_maxDeviationPositive sci_default_maxDeviationNegative
      sci_default_aucPositive sci_default_aucNegative sci_default_averageVelocity
      sci_unread_maximalVelocity sci_unread_angleEntropy sci_unread_initiationTimeMs
      sci_default_hoverCounts sci_unread_totalHovers
      uei_default_maxDeviationPositive uei_default_maxDeviationNegative
      uei_default_aucPositive uei_default_aucNegative
      uei_unread_hoverCounts uei_unread_totalHovers uei_default_averageVelocity
      uei_default_maximalVelocity uei_default_angleEntropy uei_default_initiationTimeMs)

subsection \<open>The hover ratio of the SCI\<close>

text \<open>
  Claim C4, as stated: the hover ratio is computed from the record's \<^verbatim>\<open>totalHovers\<close>.
  With counts A:2, B:1, selected response A and \<^verbatim>\<open>totalHovers = 10\<close> the code yields
  1/3 (from the sum 3 of the counts), the stated formula (10 - 2) / 10 = 4/5.
\<close>

theorem C4_counterexample:
  "hover_ratio \<lparr>hoverCounts = Some [(''A'', 2), (''B'', 1)], totalHovers = Some 10\<rparr>
     (empty_Metadata\<lparr>selectedResponse := Some ''A''\<rparr>) = 1 / 3 \<and>
   spec_hover_ratio \<lparr>hoverCounts = Some [(''A'', 2), (''B'', 1)], totalHovers = Some 10\<rparr>
     (empty_Metadata\<lparr>selectedResponse := Some ''A''\<rparr>) = 4 / 5"
  by (simp add: hover_ratio_def spec_hover_ratio_def dict_get_def empty_Metadata_def)

lemma sci_ignores_totalHovers:
  "calculate_sci (set_hover data (hv\<lparr>totalHovers := t\<rparr>)) = calculate_sci (set_hover data hv)"
  by (simp add: sci_unfold hover_ratio_def split: sum.splits)

lemma hover_ratio_ignores_totalHovers:
  "hover_ratio (hv\<lparr>totalHovers := t\<rparr>) md = hover_ratio hv md"
  by (simp add: hover_ratio_def)

lemma hover_ratio_formula:
  "hover_ratio hv md =
     (case hoverCounts hv of
        None \<Rightarrow> 0
      | Some hover_counts \<Rightarrow>
          if sum_list (map snd hover_counts) > 0
          then (sum_list (map snd hover_counts)
                  - dict_get (map_of hover_counts (dict_get (selectedResponse md) [])) 0)
               / sum_list (map snd hover_counts)
          else 0)"
  by (simp add: hover_ratio_def dict_get_def Let_def split: option.splits)

text \<open>
  Claim C4, amended: the hover ratio is \<open>(S - hoverCounts.get(selectedResponse, 0)) / S\<close>
  where \<open>S\<close> is the sum of the values of \<^verbatim>\<open>hoverCounts\<close>; it is 0 when \<open>S\<close> is not positive
  or \<^verbatim>\<open>hoverCounts\<close> is absent. The record's \<^verbatim>\<open>totalHovers\<close> is never read: changing it
  changes neither the ratio nor the SCI.
\<close>

theorem C4_hover_ratio_from_counts:
  "hover_ratio hv md =
     (case hoverCounts hv of
        None \<Rightarrow> 0
      | Some hover_counts \<Rightarrow>
          if sum_list (map snd hover_counts) > 0
          then (sum_list (map snd hover_counts)
                  - dict_get (map_of hover_counts (dict_get (selectedResponse md) [])) 0)
               / sum_list (map snd hover_counts)
          else 0) \<and>
   hover_ratio (hv\<lparr>totalHovers := t\<rparr>) md = hover_ratio hv md \<and>
   calculate_sci (set_hover data (hv\<lparr>totalHovers := t\<rparr>)) = calculate_sci (set_hover data hv)"
  by (intro conjI hover_ratio_formula hover_ratio_ignores_totalHovers sci_ignores_totalHovers)

subsection \<open>The session index and the history\<close>

text \<open>
  Claim C7. When the history that \<^verbatim>\<open>calculate_sei\<close> looks at (all of it, or the entries
  of the given user) is empty, the SEI is exactly 50.
\<close>

theorem C7_empty_history_neutral:
  "get_history history user_id = [] \<Longrightarrow> calculate_sei history user_id = 50"
  by (simp add: get_history_def calculate_sei_def sei_of_entries_def)

theorem C7_empty_history_neutral_witness:
  "get_history [bob_entry] (Some ''alice'') = [] \<and>
   calculate_sei [bob_entry] (Some ''alice'') = 50"
proof -
  have h: "get_history [bob_entry] (Some ''alice'') = []"
    by (simp add: get_history_def bob_entry_def)
  from C7_empty_history_neutral [OF h] h show ?thesis by simp
qed

text \<open>
  Claim C6, as stated, for every userId: two histories with the same entries of that user
  give the same SEI. For the empty userId it fails: the empty history and the history
  holding one entry of user bob have the same (empty) subsequence of entries whose userId
  is the empty string, and \<^verbatim>\<open>calculate_sei('')\<close> is 50 on the first and 62 on the second.
\<close>

theorem C6_counterexample:
  "filter (\<lambda>h. h_userId h = '''') [] = filter (\<lambda>h. h_userId h = '''') [bob_entry] \<and>
   calculate_sei [] (Some '''') = 50 \<and> calculate_sei [bob_entry] (Some '''') = 62"
  by (simp add: calculate_sei_def sei_bob) (simp add: bob_entry_def sei_of_entries_def)

text \<open>
  Claim C6, amended: for every non-empty userId, two histories whose insertion-ordered
  subsequences of entries with that userId are equal give the same SEI.
\<close>

theorem C6_sei_depends_on_user_entries:
  "u \<noteq> '''' \<Longrightarrow>
   filter (\<lambda>h. h_userId h = u) history1 = filter (\<lambda>h. h_userId h = u) history2 \<Longrightarrow>
   calculate_sei history1 (Some u) = calculate_sei history2 (Some u)"
  by (simp add: calculate_sei_def)

theorem C6_sei_depends_on_user_entries_witness:
  "''bob'' \<noteq> '''' \<and>
   filter (\<lambda>h. h_userId h = ''bob'') [bob_entry, minimal_entry]
     = filter (\<lambda>h. h_userId h = ''bob'') [bob_entry] \<and>
   calculate_sei [bob_entry, minimal_entry] (Some ''bob'') = calculate_sei [bob_entry] (Some ''bob'')"
proof -
  have a: "''bob'' \<noteq> ''''" by simp
  have b: "filter (\<lambda>h. h_userId h = ''bob'') [bob_entry, minimal_entry]
      = filter (\<lambda>h. h_userId h = ''bob'') [bob_entry]"
    by (simp add: bob_entry_def minimal_entry_def)
  from C6_sei_depends_on_user_entries [OF a b] a b show ?thesis by blast
qed

subsection \<open>The penalty for an instantaneous response\<close>

lemma penalty_clamp_mono:
  "max 0 (min 100 (raw * (7 / 10) * 100)) \<le> max (0::real) (min 100 (raw * 1 * 100))"
  by (cases "raw \<ge> 0") (auto simp: max_def min_def)

lemma uei_with_initiation_time:
  "calculate_uei (set_complexity data (cpx\<lparr>initiationTimeMs := Some t\<rparr>)) =
     (case calculate_trajectory_metrics (dict_get (trajectory data) []) of
        Inl e \<Rightarrow> Inl e
      | Inr tm \<Rightarrow>
          Inr (max 0 (min 100
            (uei_raw_formula
              (dict_get (maxDeviationPositive
                 (dict_get (deviation (dict_get (metrics data) empty_Metrics)) empty_Deviation)) 0)
              \<bar>dict_get (maxDeviationNegative
                 (dict_get (deviation (dict_get (metrics data) empty_Metrics)) empty_Deviation)) 0\<bar>
              (dict_get (aucPositive
                 (dict_get (deviation (dict_get (metrics data) empty_Metrics)) empty_Deviation)) 0)
              \<bar>dict_get (aucNegative
                 (dict_get (deviation (dict_get (metrics data) empty_Metrics)) empty_Deviation)) 0\<bar>
              (dict_get (averageVelocityPxPerSec
                 (dict_get (velocity (dict_get (metrics data) empty_Metrics)) empty_Velocity)) 500)
              (dict_get (maximalVelocityPxPerSec
                 (dict_get (velocity (dict_get (metrics data) empty_Metrics)) empty_Velocity)) 1000)
              (dict_get (angleEntropy cpx) 1)
              tm
             * (if t < 100 then 7 / 10 else 1) * 100))))"
  by (simp add: uei_unfold split: sum.splits)

text \<open>
  Claim C8. Two records that differ only in \<^verbatim>\<open>initiationTimeMs\<close>, one below 100 and
  one at 100 or above: either both scorings raise the same error (the trajectory is the
  same), or there is one raw score such that the first UEI is it times 0.7 times 100,
  clamped, and the second is it times 1.0 times 100, clamped; the second is at least the
  first.
\<close>

theorem C8_initiation_penalty:
  assumes "t1 < 100" and "100 \<le> t2"
  shows "(\<exists>e. calculate_uei (set_complexity data (cpx\<lparr>initiationTimeMs := Some t1\<rparr>)) = Inl e \<and>
              calculate_uei (set_complexity data (cpx\<lparr>initiationTimeMs := Some t2\<rparr>)) = Inl e) \<or>
         (\<exists>raw. calculate_uei (set_complexity data (cpx\<lparr>initiationTimeMs := Some t1\<rparr>))
                   = Inr (max 0 (min 100 (raw * (7 / 10) * 100))) \<and>
                calculate_uei (set_complexity data (cpx\<lparr>initiationTimeMs := Some t2\<rparr>))
                   = Inr (max 0 (min 100 (raw * 1 * 100))) \<and>
                max 0 (min 100 (raw * (7 / 10) * 100)) \<le> max 0 (min 100 (raw * 1 * 100)))"
proof (cases "calculate_trajectory_metrics (dict_get (trajectory data) [])")
  case (Inl e)
  then show ?thesis by (simp add: uei_with_initiation_time)
next
  case (Inr tm)
  let ?raw = "uei_raw_formula
      (dict_get (maxDeviationPositive
         (dict_get (deviation (dict_get (metrics data) empty_Metrics)) empty_Deviation)) 0)
      \<bar>dict_get (maxDeviationNegative
         (dict_get (deviation (dict_get (metrics data) empty_Metrics)) empty_Deviation)) 0\<bar>
      (dict_get (aucPositive
         (dict_get (deviation (dict_get (metrics data) empty_Metrics)) empty_Deviation)) 0)
      \<bar>dict_get (aucNegative
         (dict_get (deviation (dict_get (metrics data) empty_Metrics)) empty_Deviation)) 0\<bar>
      (dict_get (averageVelocityPxPerSec
         (dict_get (velocity (dict_get (metrics data) empty_Metrics)) empty_Velocity)) 500)
      (dict_get (maximalVelocityPxPerSec
         (dict_get (velocity (dict_get (metrics data) empty_Metrics)) empty_Velocity)) 1000)
      (dict_get (angleEntropy cpx) 1) tm"
  have low: "calculate_uei (set_complexity data (cpx\<lparr>initiationTimeMs := Some t1\<rparr>))
      = Inr (max 0 (min 100 (?raw * (7 / 10) * 100)))"
    using Inr assms(1) by (simp add: uei_with_initiation_time)
  have high: "calculate_uei (set_complexity data (cpx\<lparr>initiationTimeMs := Some t2\<rparr>))
      = Inr (max 0 (min 100 (?raw * 1 * 100)))"
    using Inr assms(2) by (simp add: uei_with_initiation_time)
  from low high penalty_clamp_mono [of ?raw] show ?thesis by blast
qed

theorem C8_initiation_penalty_witness:
  "(50::real) < 100 \<and> (100::real) \<le> 150 \<and>
   calculate_uei (set_complexity minimal_record (empty_Complexity\<lparr>initiationTimeMs := Some 50\<rparr>))
     = Inr (105 / 2) \<and>
   calculate_uei (set_complexity minimal_record (empty_Complexity\<lparr>initiationTimeMs := Some 150\<rparr>))
     = Inr 75"
proof -
  have a: "(50::real) < 100" and b: "(100::real) \<le> 150" by simp_all
  have c: "calculate_uei (set_complexity minimal_record (empty_Complexity\<lparr>initiationTimeMs := Some 50\<rparr>))
     = Inr (105 / 2)"
    by (simp add: minimal_record_def calculate_uei_eq tm_nil uei_raw_formula_def dict_get_def
      empty_defs set_complexity_def)
  have d: "calculate_uei (set_complexity minimal_record (empty_Complexity\<lparr>initiationTimeMs := Some 150\<rparr>))
     = Inr 75"
    by (simp add: minimal_record_def calculate_uei_eq tm_nil uei_raw_formula_def dict_get_def
      empty_defs set_complexity_def)
  from C8_initiation_penalty [OF a b, of minimal_record empty_Complexity] a b c d
  show ?thesis by simp
qed

subsection \<open>The facade: cumulative history\<close>

lemma extract_coords_total:
  "list_all (\<lambda>p. f p \<noteq> None) ps \<Longrightarrow> \<exists>vs. extract_coords k f ps = Inr vs"
  by (induction ps) auto

lemma trajectory_metrics_total:
  assumes "list_all (\<lambda>p. pt_x p \<noteq> None \<and> pt_y p \<noteq> None) traj"
  shows "\<exists>tm. calculate_trajectory_metrics traj = Inr tm"
proof -
  from assms have "list_all (\<lambda>p. pt_x p \<noteq> None) traj" "list_all (\<lambda>p. pt_y p \<noteq> None) traj"
    by (simp_all add: list_all_iff)
  then obtain xs ys where "extract_coords ''x'' pt_x traj = Inr xs"
      "extract_coords ''y'' pt_y traj = Inr ys"
    using extract_coords_total by blast
  then show ?thesis by (simp add: calculate_trajectory_metrics_def)
qed

lemma calculate_sei_own_entries:
  "list_all (\<lambda>h. h_userId h = dict_get user_id []) hist \<Longrightarrow>
   calculate_sei hist user_id = sei_of_entries hist"
  by (cases user_id) (auto simp: calculate_sei_def dict_get_def list_all_iff intro: arg_cong [where f = sei_of_entries])

lemma calculate_all_Inr:
  assumes "calculate_sci data = Inr s" and "calculate_uei data = Inr u"
  shows "calculate_all data upd history =
     Inr (\<lparr>SCI = py_round2 s, UEI = py_round2 u,
           SEI = py_round2 (calculate_sei
             (if upd then add_to_history history s u (dict_get (metadata data) empty_Metadata)
              else history)
             (userId (dict_get (metadata data) empty_Metadata)))\<rparr>,
          if upd then add_to_history history s u (dict_get (metadata data) empty_Metadata)
          else history)"
  using assms by (simp add: calculate_all_def Let_def)

text \<open>
  Claim C5. For a record whose trajectory points all carry \<^verbatim>\<open>x\<close> and \<^verbatim>\<open>y\<close>, the
  scores \<open>s\<close> and \<open>u\<close> of the record exist, and with \<open>e\<close> the history entry made of
  them and of the record's identity: the first call of \<^verbatim>\<open>calculate_all\<close> with
  \<^verbatim>\<open>update_history=True\<close> on the empty history leaves the history \<open>[e]\<close> and returns
  the rounded index of \<open>[e]\<close> (not the 50 of an empty history); the second call leaves
  exactly \<open>[e, e]\<close> and returns the rounded index of both entries. In general, on any
  history the call appends \<open>e\<close> first and aggregates the history that already holds it.
\<close>

theorem C5_two_calls_cumulative:
  assumes "list_all (\<lambda>p. pt_x p \<noteq> None \<and> pt_y p \<noteq> None) (dict_get (trajectory data) [])"
  shows "\<exists>s u e.
           calculate_sci data = Inr s \<and> calculate_uei data = Inr u \<and>
           e = \<lparr>sci = s, uei = u,
                h_userId = dict_get (userId (dict_get (metadata data) empty_Metadata)) '''',
                h_questionId = dict_get (questionId (dict_get (metadata data) empty_Metadata)) '''',
                h_timestamp = dict_get (timestamp (dict_get (metadata data) empty_Metadata)) ''''\<rparr> \<and>
           calculate_all data True [] =
             Inr (\<lparr>SCI = py_round2 s, UEI = py_round2 u,
                   SEI = py_round2 (sei_of_entries [e])\<rparr>, [e]) \<and>
           calculate_all data True [e] =
             Inr (\<lparr>SCI = py_round2 s, UEI = py_round2 u,
                   SEI = py_round2 (sei_of_entries [e, e])\<rparr>, [e, e]) \<and>
           (\<forall>history. calculate_all data True history =
             Inr (\<lparr>SCI = py_round2 s, UEI = py_round2 u,
                   SEI = py_round2 (calculate_sei (history @ [e])
                           (userId (dict_get (metadata data) empty_Metadata)))\<rparr>,
                  history @ [e]))"
proof -
  from trajectory_metrics_total [OF assms] obtain tm
    where tm: "calculate_trajectory_metrics (dict_get (trajectory data) []) = Inr tm" ..
  from tm obtain s where s: "calculate_sci data = Inr s" by (simp add: calculate_sci_eq)
  from tm obtain u where u: "calculate_uei data = Inr u" by (simp add: calculate_uei_eq)
  define md where "md = dict_get (metadata data) empty_Metadata"
  define e where "e = \<lparr>sci = s, uei = u, h_userId = dict_get (userId md) [],
     h_questionId = dict_get (questionId md) [], h_timestamp = dict_get (timestamp md) []\<rparr>"
  have app: "add_to_history history s u md = history @ [e]" for history
    by (simp add: add_to_history_def e_def)
  have gen: "calculate_all data True history =
      Inr (\<lparr>SCI = py_round2 s, UEI = py_round2 u,
            SEI = py_round2 (calculate_sei (history @ [e]) (userId md))\<rparr>, history @ [e])"
    for history
    using app [of history] by (simp add: calculate_all_Inr [OF s u] md_def)
  have one: "calculate_sei [e] (userId md) = sei_of_entries [e]"
    by (rule calculate_sei_own_entries) (simp add: e_def)
  have two: "calculate_sei [e, e] (userId md) = sei_of_entries [e, e]"
    by (rule calculate_sei_own_entries) (simp add: e_def)
  have first: "calculate_all data True [] =
      Inr (\<lparr>SCI = py_round2 s, UEI = py_round2 u, SEI = py_round2 (sei_of_entries [e])\<rparr>, [e])"
    using gen [of "[]"] one by simp
  have second: "calculate_all data True [e] =
      Inr (\<lparr>SCI = py_round2 s, UEI = py_round2 u, SEI = py_round2 (sei_of_entries [e, e])\<rparr>,
           [e, e])"
    using gen [of "[e]"] two by simp
  from s u e_def first second gen show ?thesis
    unfolding md_def by blast
qed

theorem C5_two_calls_cumulative_witness:
  "list_all (\<lambda>p. pt_x p \<noteq> None \<and> pt_y p \<noteq> None) (dict_get (trajectory minimal_record) []) \<and>
   calculate_all minimal_record True [] =
     Inr (\<lparr>SCI = 10, UEI = 75, SEI = 62\<rparr>, [minimal_entry]) \<and>
   calculate_all minimal_record True [minimal_entry] =
     Inr (\<lparr>SCI = 10, UEI = 75, SEI = 62\<rparr>, [minimal_entry, minimal_entry]) \<and>
   calculate_all minimal_record True [conflict_entry] =
     Inr (\<lparr>SCI = 10, UEI = 75, SEI = 72\<rparr>, [conflict_entry, minimal_entry])"
proof -
  have h: "list_all (\<lambda>p. pt_x p \<noteq> None \<and> pt_y p \<noteq> None)
      (dict_get (trajectory minimal_record) [])"
    by (simp add: minimal_record_def dict_get_def)
  have md: "dict_get (metadata minimal_record) empty_Metadata = empty_Metadata"
    by (simp add: minimal_record_def dict_get_def)
  from C5_two_calls_cumulative [OF h] obtain s u e where
    s: "calculate_sci minimal_record = Inr s" and u: "calculate_uei minimal_record = Inr u"
    and e: "e = \<lparr>sci = s, uei = u,
         h_userId = dict_get (userId (dict_get (metadata minimal_record) empty_Metadata)) '''',
         h_questionId = dict_get (questionId (dict_get (metadata minimal_record) empty_Metadata)) '''',
         h_timestamp = dict_get (timestamp (dict_get (metadata minimal_record) empty_Metadata)) ''''\<rparr>"
    and first: "calculate_all minimal_record True [] =
         Inr (\<lparr>SCI = py_round2 s, UEI = py_round2 u, SEI = py_round2 (sei_of_entries [e])\<rparr>, [e])"
    and second: "calculate_all minimal_record True [e] =
         Inr (\<lparr>SCI = py_round2 s, UEI = py_round2 u, SEI = py_round2 (sei_of_entries [e, e])\<rparr>,
              [e, e])"
    and gen: "\<forall>history. calculate_all minimal_record True history =
         Inr (\<lparr>SCI = py_round2 s, UEI = py_round2 u,
               SEI = py_round2 (calculate_sei (history @ [e])
                       (userId (dict_get (metadata minimal_record) empty_Metadata)))\<rparr>,
              history @ [e])"
    by blast
  from s u have su: "s = 10" "u = 75" by (simp_all add: sci_minimal uei_minimal)
  have fields:
    "dict_get (userId (dict_get (metadata minimal_record) empty_Metadata)) [] = []"
    "dict_get (questionId (dict_get (metadata minimal_record) empty_Metadata)) [] = []"
    "dict_get (timestamp (dict_get (metadata minimal_record) empty_Metadata)) [] = []"
    by (simp_all add: minimal_record_def dict_get_def empty_Metadata_def)
  from e su have e': "e = minimal_entry"
    by (simp only: fields minimal_entry_def)
  have two: "sei_of_entries [minimal_entry, minimal_entry] = 62"
    by (simp add: sei_of_entries_def minimal_entry_def np_mean_def np_std_ddof1_def)
  have mixed: "calculate_sei [conflict_entry, minimal_entry] (userId empty_Metadata) = 72"
    by (simp add: calculate_sei_def empty_Metadata_def sei_of_entries_def minimal_entry_def
        conflict_entry_def np_mean_def np_std_ddof1_def)
  have r72: "py_round2 72 = 72" by (simp add: py_round2_def round_half_even_def)
  from gen have third: "calculate_all minimal_record True [conflict_entry] =
         Inr (\<lparr>SCI = py_round2 s, UEI = py_round2 u,
               SEI = py_round2 (calculate_sei ([conflict_entry] @ [e])
                       (userId (dict_get (metadata minimal_record) empty_Metadata)))\<rparr>,
              [conflict_entry] @ [e])" ..
  from h first second third show ?thesis
    by (simp add: su e' md sei_single two mixed r72 py_round2_10 py_round2_75 py_round2_62)
qed

text \<open>
  Claim C10. When the record's metadata has no userId, or the empty string, the SEI that
  \<^verbatim>\<open>calculate_all\<close> returns is the rounded index of the whole history it returns (the
  entries of every user). \<^verbatim>\<open>get_history\<close> and \<^verbatim>\<open>calculate_sei\<close> with the empty string
  use all entries; with a non-empty userId they use exactly the entries of that user.
\<close>

theorem C10_empty_user_unfiltered:
  "((userId (dict_get (metadata data) empty_Metadata) = None \<or>
     userId (dict_get (metadata data) empty_Metadata) = Some '''') \<and>
    calculate_all data upd history = Inr (r, history')
      \<longrightarrow> SEI r = py_round2 (sei_of_entries history')) \<and>
   get_history history (Some '''') = history \<and>
   calculate_sei history (Some '''') = sei_of_entries history \<and>
   (u \<noteq> '''' \<longrightarrow>
      get_history history (Some u) = filter (\<lambda>h. h_userId h = u) history \<and>
      calculate_sei history (Some u) = sei_of_entries (filter (\<lambda>h. h_userId h = u) history))"
proof -
  have "SEI r = py_round2 (sei_of_entries history')"
    if uid: "userId (dict_get (metadata data) empty_Metadata) = None \<or>
             userId (dict_get (metadata data) empty_Metadata) = Some ''''"
      and run: "calculate_all data upd history = Inr (r, history')"
  proof -
    from run obtain s u where s: "calculate_sci data = Inr s" and u: "calculate_uei data = Inr u"
      by (auto simp: calculate_all_def split: sum.splits)
    from uid have sel: "calculate_sei history' (userId (dict_get (metadata data) empty_Metadata))
        = sei_of_entries history'"
      by (auto simp: calculate_sei_def)
    from run sel show ?thesis
      unfolding calculate_all_Inr [OF s u] by auto
  qed
  then show ?thesis
    by (simp add: get_history_def calculate_sei_def)
qed

theorem C10_empty_user_unfiltered_witness:
  "userId (dict_get (metadata minimal_record) empty_Metadata) = None \<and>
   calculate_all minimal_record True [minimal_entry, bob_entry] =
     Inr (\<lparr>SCI = 10, UEI = 75, SEI = 62\<rparr>, [minimal_entry, bob_entry, minimal_entry]) \<and>
   SEI \<lparr>SCI = 10, UEI = 75, SEI = 62\<rparr>
     = py_round2 (sei_of_entries [minimal_entry, bob_entry, minimal_entry]) \<and>
   get_history [minimal_entry, bob_entry] (Some []) = [minimal_entry, bob_entry] \<and>
   ''bob'' \<noteq> [] \<and>
   get_history [minimal_entry, bob_entry] (Some ''bob'') = [bob_entry] \<and>
   calculate_sei [minimal_entry, bob_entry] (Some ''bob'') = sei_of_entries [bob_entry]"
proof -
  have md: "dict_get (metadata minimal_record) empty_Metadata = empty_Metadata"
    by (simp add: minimal_record_def dict_get_def)
  have uid: "userId empty_Metadata = None"
    by (simp add: empty_Metadata_def)
  have add: "add_to_history hist 10 75 empty_Metadata = hist @ [minimal_entry]" for hist
    by (simp add: add_to_history_def minimal_entry_def dict_get_def empty_Metadata_def)
  have three: "sei_of_entries [minimal_entry, bob_entry, minimal_entry] = 62"
    by (simp add: sei_of_entries_def minimal_entry_def bob_entry_def np_mean_def
        np_std_ddof1_def)
  have run: "calculate_all minimal_record True [minimal_entry, bob_entry] =
     Inr (\<lparr>SCI = 10, UEI = 75, SEI = 62\<rparr>, [minimal_entry, bob_entry, minimal_entry])"
    by (simp add: calculate_all_Inr [OF sci_minimal uei_minimal] md uid add calculate_sei_def
        three py_round2_10 py_round2_75 py_round2_62)
  have flt: "filter (\<lambda>h. h_userId h = ''bob'') [minimal_entry, bob_entry] = [bob_entry]"
    by (simp add: bob_entry_def minimal_entry_def)
  from C10_empty_user_unfiltered [where data = minimal_record and upd = True
      and history = "[minimal_entry, bob_entry]" and r = "\<lparr>SCI = 10, UEI = 75, SEI = 62\<rparr>"
      and history' = "[minimal_entry, bob_entry, minimal_entry]" and u = "''bob''"]
    run md uid flt
  show ?thesis by simp
qed

subsection \<open>The range of the three indices\<close>

lemma np_mean_nonneg: "list_all (\<lambda>v. 0 \<le> v) vs \<Longrightarrow> 0 \<le> np_mean vs"
  by (simp add: np_mean_def list_all_iff sum_list_nonneg)

lemma np_mean_le: "vs \<noteq> [] \<Longrightarrow> list_all (\<lambda>v. v \<le> b) vs \<Longrightarrow> np_mean vs \<le> b"
proof -
  assume ne: "vs \<noteq> []" and le: "list_all (\<lambda>v. v \<le> b) vs"
  have "sum_list vs \<le> b * real (length vs)"
    using le by (induction vs) (auto simp: algebra_simps)
  moreover have "0 < real (length vs)" using ne by simp
  ultimately show ?thesis by (simp add: np_mean_def pos_divide_le_eq)
qed

lemma deviations_nonneg: "list_all (\<lambda>v. 0 \<le> v) (deviations xs ys)"
  by (auto simp: deviations_def Let_def list_all_iff line_length_def intro!: divide_nonneg_nonneg)

lemma averageDeviation_nonneg:
  "calculate_trajectory_metrics traj = Inr tm \<Longrightarrow> 0 \<le> averageDeviation tm"
  by (auto simp: calculate_trajectory_metrics_def np_mean_nonneg deviations_nonneg
      split: if_splits sum.splits)

lemma member_le_sum_list_real:
  "list_all (\<lambda>v. 0 \<le> v) vs \<Longrightarrow> c \<in> set vs \<Longrightarrow> (c::real) \<le> sum_list vs"
proof (induction vs)
  case Nil
  then show ?case by simp
next
  case (Cons v vs)
  then have "0 \<le> sum_list vs" by (simp add: list_all_iff sum_list_nonneg)
  with Cons show ?case by auto
qed

lemma hover_ratio_range:
  assumes "list_all (\<lambda>kc. 0 \<le> snd kc) (dict_get (hoverCounts hv) [])"
  shows "0 \<le> hover_ratio hv md \<and> hover_ratio hv md \<le> 1"
proof (cases "hoverCounts hv")
  case None
  then show ?thesis by (simp add: hover_ratio_def dict_get_def)
next
  case (Some hc)
  define k where "k = dict_get (selectedResponse md) []"
  define c where "c = dict_get (map_of hc k) 0"
  from assms Some have nn: "list_all (\<lambda>v. 0 \<le> v) (map snd hc)"
    by (simp add: dict_get_def list_all_iff)
  have c0: "0 \<le> c"
  proof (cases "map_of hc k")
    case None
    then show ?thesis by (simp add: c_def dict_get_def)
  next
    case (Some v)
    then have "(k, v) \<in> set hc" by (rule map_of_SomeD)
    then have "v \<in> set (map snd hc)" by force
    with nn Some show ?thesis by (auto simp: c_def dict_get_def list_all_iff)
  qed
  have cs: "c \<le> sum_list (map snd hc)" if "0 < sum_list (map snd hc)"
  proof (cases "map_of hc k")
    case None
    with that show ?thesis by (simp add: c_def dict_get_def)
  next
    case (Some v)
    then have "(k, v) \<in> set hc" by (rule map_of_SomeD)
    then have "v \<in> set (map snd hc)" by force
    from member_le_sum_list_real [OF nn this] Some show ?thesis
      by (simp add: c_def dict_get_def)
  qed
  have eq: "hover_ratio hv md =
      (if 0 < sum_list (map snd hc) then (sum_list (map snd hc) - c) / sum_list (map snd hc) else 0)"
    using Some by (simp add: hover_ratio_formula c_def k_def)
  show ?thesis
  proof (cases "0 < sum_list (map snd hc)")
    case True
    with cs c0 show ?thesis by (simp add: eq)
  next
    case False
    then show ?thesis by (simp add: eq)
  qed
qed

lemma sci_formula_range:
  assumes "0 \<le> p" "0 \<le> n" "0 \<le> ap" "0 \<le> an" "0 \<le> vel" "0 \<le> hr" "hr \<le> 1"
    "0 \<le> averageDeviation tm"
  shows "0 \<le> sci_formula p n ap an vel hr tm \<and> sci_formula p n ap an vel hr tm \<le> 100"
proof -
  define a where "a = min (real (xFlips tm + yFlips tm) / 20) 1"
  define b where "b = min ((p + n) / 100) 1"
  define c where "c = min ((ap + an) / 500) 1"
  define d where "d = min (averageDeviation tm / 50) 1"
  define e where "e = min (vel / 2000) 1"
  have bnds: "0 \<le> a" "a \<le> 1" "0 \<le> b" "b \<le> 1" "0 \<le> c" "c \<le> 1" "0 \<le> d" "d \<le> 1"
    "0 \<le> e" "e \<le> 1"
    using assms by (simp_all add: a_def b_def c_def d_def e_def)
  have eq: "sci_formula p n ap an vel hr tm =
      (25 / 100 * a + 20 / 100 * b + 20 / 100 * c + 15 / 100 * d + 10 / 100 * (1 - e)
        + 10 / 100 * hr) * 100"
    by (simp add: sci_formula_def a_def b_def c_def d_def e_def)
  from bnds assms(6,7) show ?thesis unfolding eq by (intro conjI) argo+
qed

lemma sci_in_range:
  assumes "nonneg_inputs data" and "calculate_sci data = Inr s"
  shows "0 \<le> s \<and> s \<le> 100"
proof -
  from assms(2) obtain tm
    where tm: "calculate_trajectory_metrics (dict_get (trajectory data) []) = Inr tm"
    by (auto simp: calculate_sci_eq split: sum.splits)
  from assms(1) have hr: "list_all (\<lambda>kc. 0 \<le> snd kc)
      (dict_get (hoverCounts (dict_get (hover (dict_get (metrics data) empty_Metrics)) empty_Hover)) [])"
    by (simp add: nonneg_inputs_def Let_def)
  from assms(2) tm have "s = sci_formula
            (dict_get (maxDeviationPositive
               (dict_get (deviation (dict_get (metrics data) empty_Metrics)) empty_Deviation)) 0)
            \<bar>dict_get (maxDeviationNegative
               (dict_get (deviation (dict_get (metrics data) empty_Metrics)) empty_Deviation)) 0\<bar>
            (dict_get (aucPositive
               (dict_get (deviation (dict_get (metrics data) empty_Metrics)) empty_Deviation)) 0)
            \<bar>dict_get (aucNegative
               (dict_get (deviation (dict_get (metrics data) empty_Metrics)) empty_Deviation)) 0\<bar>
            (dict_get (averageVelocityPxPerSec
               (dict_get (velocity (dict_get (metrics data) empty_Metrics)) empty_Velocity)) 0)
            (hover_ratio (dict_get (hover (dict_get (metrics data) empty_Metrics)) empty_Hover)
               (dict_get (metadata data) empty_Metadata))
            tm"
    by (simp add: calculate_sci_eq)
  moreover note sci_formula_range [OF _ _ _ _ _ _ _ averageDeviation_nonneg [OF tm]]
  ultimately show ?thesis
    using assms(1) hover_ratio_range [OF hr]
    by (simp add: nonneg_inputs_def Let_def)
qed

lemma uei_in_range: "calculate_uei data = Inr u \<Longrightarrow> 0 \<le> u \<and> u \<le> 100"
  by (auto simp: calculate_uei_eq split: sum.splits)

lemma ratio_range:
  "vs \<noteq> [] \<Longrightarrow> length ws = length vs \<Longrightarrow>
   0 \<le> real (length (filter P ws)) / real (length vs) \<and>
   real (length (filter P ws)) / real (length vs) \<le> 1"
proof -
  assume ne: "vs \<noteq> []" and len: "length ws = length vs"
  have "length (filter P ws) \<le> length vs"
    using length_filter_le [of P ws] len by simp
  moreover have "0 < real (length vs)" using ne by simp
  ultimately show ?thesis by (simp add: pos_divide_le_eq)
qed

lemma np_std_ddof1_nonneg: "0 \<le> np_std_ddof1 vs"
  by (auto simp: np_std_ddof1_def intro!: divide_nonneg_nonneg sum_list_nonneg)

lemma sei_of_entries_range:
  assumes "list_all (\<lambda>h. in_range (sci h) \<and> in_range (uei h)) hist"
  shows "0 \<le> sei_of_entries hist \<and> sei_of_entries hist \<le> 100"
proof (cases "hist = []")
  case True
  then show ?thesis by (simp add: sei_of_entries_def)
next
  case False
  define us where "us = map uei hist"
  define ss where "ss = map sci hist"
  define cv where "cv =
    (if length us > 1 then (if np_mean us > 0 then np_std_ddof1 us / np_mean us else 0) else 0)"
  define hi where "hi = real (length (filter (\<lambda>u. u > 60) us)) / real (length us)"
  define lo where "lo = real (length (filter (\<lambda>u. u < 30) us)) / real (length us)"
  define bal where "bal =
    real (length (filter (\<lambda>(s, u). s > 50 \<and> u > 60) (zip ss us))) / real (length us)"
  define mu where "mu = np_mean us"
  define ms where "ms = np_mean ss"
  define cons where "cons = 1 / (1 + cv)"
  have eq: "sei_of_entries hist =
      (40 / 100 * (mu / 100) + 20 / 100 * (ms / 100) + 15 / 100 * cons
        + 10 / 100 * hi + 10 / 100 * bal + 5 / 100 * (1 - lo)) * 100"
    using False
    by (simp only: sei_of_entries_def Let_def us_def ss_def cv_def hi_def lo_def bal_def mu_def
        ms_def cons_def if_False)
  have ne: "us \<noteq> []" "ss \<noteq> []" using False by (simp_all add: us_def ss_def)
  have len: "length (zip ss us) = length us" by (simp add: us_def ss_def)
  from assms have "list_all (\<lambda>v. 0 \<le> v) us" "list_all (\<lambda>v. v \<le> 100) us"
      "list_all (\<lambda>v. 0 \<le> v) ss" "list_all (\<lambda>v. v \<le> 100) ss"
    by (simp_all add: us_def ss_def list_all_iff in_range_def)
  then have m: "0 \<le> mu" "mu \<le> 100" "0 \<le> ms" "ms \<le> 100"
    using ne by (simp_all add: mu_def ms_def np_mean_nonneg np_mean_le)
  have "0 \<le> cv"
    using np_std_ddof1_nonneg [of us] by (simp add: cv_def)
  then have c: "0 \<le> cons" "cons \<le> 1"
    by (simp_all add: cons_def)
  have r: "0 \<le> hi" "hi \<le> 1" "0 \<le> lo" "lo \<le> 1" "0 \<le> bal" "bal \<le> 1"
    using ratio_range [OF ne(1) refl] ratio_range [OF ne(1) len]
    by (simp_all add: hi_def lo_def bal_def)
  from m c r show ?thesis unfolding eq by (intro conjI) argo+
qed

lemma sei_in_range:
  assumes "list_all (\<lambda>h. in_range (sci h) \<and> in_range (uei h)) history"
  shows "0 \<le> calculate_sei history user_id \<and> calculate_sei history user_id \<le> 100"
proof -
  have "list_all (\<lambda>h. in_range (sci h) \<and> in_range (uei h))
     (case user_id of None \<Rightarrow> history
      | Some u \<Rightarrow> if u \<noteq> [] then filter (\<lambda>h. h_userId h = u) history else history)"
    using assms by (auto simp: list_all_iff split: option.splits)
  from sei_of_entries_range [OF this] show ?thesis by (simp add: calculate_sei_def)
qed

lemma calculate_all_keeps_range:
  assumes "nonneg_inputs data"
    and "list_all (\<lambda>h. in_range (sci h) \<and> in_range (uei h)) history"
    and "calculate_all data upd history = Inr (r, history')"
  shows "list_all (\<lambda>h. in_range (sci h) \<and> in_range (uei h)) history'"
proof -
  from assms(3) obtain s u where s: "calculate_sci data = Inr s" and u: "calculate_uei data = Inr u"
    by (auto simp: calculate_all_def split: sum.splits)
  from assms(3) have "history' =
      (if upd then add_to_history history s u (dict_get (metadata data) empty_Metadata)
       else history)"
    unfolding calculate_all_Inr [OF s u] by simp
  with assms(2) sci_in_range [OF assms(1) s] uei_in_range [OF u] show ?thesis
    by (simp add: add_to_history_def in_range_def)
qed

lemma negative_deviation_sci: "calculate_sci negative_deviation_record = Inr (- 1990)"
  by (simp add: negative_deviation_record_def minimal_record_def calculate_sci_eq tm_nil
      sci_formula_def hover_ratio_def dict_get_def empty_defs set_deviation_def)

lemma negative_deviation_uei: "calculate_uei negative_deviation_record = Inr 100"
  by (simp add: negative_deviation_record_def minimal_record_def calculate_uei_eq tm_nil
      uei_raw_formula_def dict_get_def empty_defs set_deviation_def)

text \<open>
  Claim C1, at a failing input. The record has the three sections (the endpoint's check
  finds no missing field) and \<^verbatim>\<open>maxDeviationPositive = -10000\<close>. \<^verbatim>\<open>calculate_sci\<close>
  returns -1990: the normalised components are capped at 1 from above only and the sum is
  not clamped, unlike the UEI (100 here, by its clamp). With that entry in the history
  \<^verbatim>\<open>calculate_sei\<close> returns -328. The lemmas above give the range that does hold:
  \<open>uei_in_range\<close> for every record, \<open>sci_in_range\<close> for records with
  \<open>nonneg_inputs\<close>, \<open>sei_in_range\<close> for histories of entries in range.
\<close>

theorem C1_sci_sei_leave_range:
  "missing_fields negative_deviation_record = [] \<and>
   calculate_sci negative_deviation_record = Inr (- 1990) \<and>
   calculate_uei negative_deviation_record = Inr 100 \<and>
   calculate_sei (add_to_history [] (- 1990) 100 empty_Metadata) None = - 328 \<and>
   calculate_all negative_deviation_record True [] =
     Inr (\<lparr>SCI = - 1990, UEI = 100, SEI = - 328\<rparr>,
          [\<lparr>sci = - 1990, uei = 100, h_userId = [], h_questionId = [], h_timestamp = []\<rparr>])"
proof -
  have md: "dict_get (metadata negative_deviation_record) empty_Metadata = empty_Metadata"
    by (simp add: negative_deviation_record_def minimal_record_def set_deviation_def dict_get_def)
  have uid: "userId empty_Metadata = None"
    by (simp add: empty_Metadata_def)
  have add: "add_to_history [] (- 1990) 100 empty_Metadata =
      [\<lparr>sci = - 1990, uei = 100, h_userId = [], h_questionId = [], h_timestamp = []\<rparr>]"
    by (simp add: add_to_history_def dict_get_def empty_Metadata_def)
  have sei: "sei_of_entries
      [\<lparr>sci = - 1990, uei = 100, h_userId = [], h_questionId = [], h_timestamp = []\<rparr>] = - 328"
    by (simp add: sei_of_entries_def np_mean_def)
  have rnd: "py_round2 (- 1990) = - 1990" "py_round2 100 = 100" "py_round2 (- 328) = - 328"
    by (simp_all add: py_round2_def round_half_even_def)
  have sections: "missing_fields negative_deviation_record = []"
    by (simp add: negative_deviation_record_def minimal_record_def set_deviation_def
        missing_fields_def has_field_def)
  show ?thesis
    by (simp add: sections negative_deviation_sci negative_deviation_uei
        calculate_all_Inr [OF negative_deviation_sci negative_deviation_uei]
        md uid add sei rnd calculate_sei_def)
qed

end
